theory Spec2Isabelle
  imports
    Main
    "HOL-Library.Char_ord"
    "HOL-Library.List_Lexorder"
    "HOL-Library.Product_Lexorder"
    "HOL-Library.Multiset"
    "HOL-Library.Sublist"
begin

section \<open>Python values and string primitives\<close>

text \<open>
  Strings are byte strings in UTF-8: a \<^typ>\<open>string\<close> is a list of 8-bit characters.
  Substring search, slicing at the start of a match and the order of strings agree between
  code points and their UTF-8 encoding.  \<open>lower\<close> and \<open>isspace\<close> are the ASCII parts of
  Python's \<open>str.lower\<close> and \<open>str.isspace\<close>; text outside ASCII is left as it is.
\<close>

datatype pyval = PyNone | PyStr string

text \<open>An exception: its class name and \<open>str(e)\<close>.\<close>

datatype exn = Exn (exn_class: string) (exn_msg: string)

datatype 'a outcome = Raise exn | Return 'a

fun truthy :: "pyval \<Rightarrow> bool" where
  "truthy PyNone = False"
| "truthy (PyStr s) = (s \<noteq> [])"

text \<open>\<open>x or ''\<close> for a value that is a \<open>str\<close> or \<open>None\<close>.\<close>

fun or_empty :: "pyval \<Rightarrow> string" where
  "or_empty PyNone = []"
| "or_empty (PyStr s) = s"

definition lower_char :: "char \<Rightarrow> char" where
  "lower_char c =
     (case map_of (zip ''ABCDEFGHIJKLMNOPQRSTUVWXYZ'' ''abcdefghijklmnopqrstuvwxyz'') c of
        Some d \<Rightarrow> d
      | None \<Rightarrow> c)"

definition lower :: "string \<Rightarrow> string" where
  "lower s = map lower_char s"

text \<open>\<open>sub in s\<close> on strings.\<close>

fun contains :: "string \<Rightarrow> string \<Rightarrow> bool" where
  "contains sub [] = (sub = [])"
| "contains sub (c # cs) = (prefix sub (c # cs) \<or> contains sub cs)"

text \<open>\<open>s.find(sub)\<close>: the lowest index where \<open>sub\<close> starts, or \<open>-1\<close>.\<close>

fun py_find :: "string \<Rightarrow> string \<Rightarrow> int" where
  "py_find [] sub = (if sub = [] then 0 else - 1)"
| "py_find (c # cs) sub =
     (if prefix sub (c # cs) then 0
      else (let i = py_find cs sub in if i = - 1 then - 1 else i + 1))"

definition isspace :: "char \<Rightarrow> bool" where
  "isspace c = (c \<in> set [CHR 0x09, CHR 0x0A, CHR 0x0B, CHR 0x0C, CHR 0x0D,
                          CHR 0x1C, CHR 0x1D, CHR 0x1E, CHR 0x1F, CHR 0x20])"

definition lstrip :: "string \<Rightarrow> string" where
  "lstrip s = dropWhile isspace s"

definition rstrip :: "string \<Rightarrow> string" where
  "rstrip s = rev (dropWhile isspace (rev s))"

definition strip :: "string \<Rightarrow> string" where
  "strip s = rstrip (lstrip s)"

text \<open>\<open>s.replace(old, new)\<close>: every non-overlapping occurrence, left to right.\<close>

function replace :: "string \<Rightarrow> string \<Rightarrow> string \<Rightarrow> string" where
  "replace old new s =
     (if old = [] then new @ concat (map (\<lambda>c. c # new) s)
      else if s = [] then []
      else if prefix old s then new @ replace old new (drop (length old) s)
      else hd s # replace old new (tl s))"
  by pat_completeness auto
termination
  by (relation "measure (\<lambda>(old, new, s). length s)") (auto simp: neq_Nil_conv)

text \<open>\<open>sep.join(xs)\<close>.\<close>

fun join :: "string \<Rightarrow> string list \<Rightarrow> string" where
  "join sep [] = []"
| "join sep [x] = x"
| "join sep (x # y # ys) = x @ sep @ join sep (y # ys)"

section \<open>Answer post-processing (\<open>app.py\<close>)\<close>

text \<open>
  The marker list of \<open>strip_sources_from_answer\<close>; the last marker starts with the
  books emoji U+1F4DA, four bytes in UTF-8.
\<close>

definition markers :: "string list" where
  "markers =
     [''\<newline>Sources:'', ''\<newline>Source:'', ''\<newline>**Sources:**'', ''\<newline>**Source:**'',
      CHR 0x0A # CHR 0xF0 # CHR 0x9F # CHR 0x93 # CHR 0x9A # '' Sources:'']"

text \<open>
  The loop over the markers: the first marker of the list that occurs in the lowered
  text decides the cut, and the loop stops there (\<open>break\<close>).
\<close>

fun cut_idx_loop :: "string \<Rightarrow> string list \<Rightarrow> int option" where
  "cut_idx_loop answer_text [] = None"
| "cut_idx_loop answer_text (m # ms) =
     (let idx = py_find (lower answer_text) (lower m)
      in if idx \<noteq> - 1 then Some idx else cut_idx_loop answer_text ms)"

definition strip_sources_from_answer :: "string \<Rightarrow> string" where
  "strip_sources_from_answer answer_text =
     (if answer_text = [] then []
      else (case cut_idx_loop answer_text markers of
              Some cut_idx \<Rightarrow> rstrip (take (nat cut_idx) answer_text)
            | None \<Rightarrow> answer_text))"

text \<open>
  The post-processing as the specification words it: cut at the first occurrence of any
  marker, that is at the least index where some marker starts, and trim trailing
  whitespace; without a marker the answer is unchanged.
\<close>

definition marker_positions :: "string \<Rightarrow> int list" where
  "marker_positions answer_text =
     filter (\<lambda>i. i \<noteq> - 1) (map (\<lambda>m. py_find (lower answer_text) (lower m)) markers)"

definition spec_strip_sources :: "string \<Rightarrow> string" where
  "spec_strip_sources answer_text =
     (case marker_positions answer_text of
        [] \<Rightarrow> answer_text
      | i # is \<Rightarrow> rstrip (take (nat (fold min is i)) answer_text))"

section \<open>The generative model\<close>

text \<open>
  \<open>generate_content(prompt)\<close> raises or returns a response; reading \<open>response.text\<close>
  raises or gives a \<open>str\<close> or \<open>None\<close>.  Every function that calls the model returns,
  beside its result, the list of the prompts it sent, in order.
\<close>

record response =
  text_of :: "pyval outcome"

type_synonym generative_model = "string \<Rightarrow> response outcome"

section \<open>Ticket classification (\<open>pipeline/classifier.py\<close>)\<close>

datatype json =
    JNull
  | JBool bool
  | JNumber int
  | JString string
  | JArray "json list"
  | JObject "(string \<times> json) list"

text \<open>
  What the classifier takes from outside: the model, \<open>json.loads\<close>, the two parts of
  \<open>CLASSIFICATION_PROMPT\<close> around \<open>{ticket_text}\<close>, and the texts the interpreter puts
  into its own exceptions and into \<open>str(d.keys())\<close>.
\<close>

record classifier_env =
  generate_content :: generative_model
  json_loads :: "string \<Rightarrow> json outcome"
  prompt_before :: string
  prompt_after :: string
  not_iterable_msg :: "json \<Rightarrow> string"
  no_attribute_msg :: "string \<Rightarrow> string"
  keys_str :: "string list \<Rightarrow> string"

datatype classify_result =
    Classification json
  | ClassifyError string "pyval option"

definition clean_llm_response :: "string \<Rightarrow> string" where
  "clean_llm_response response_text =
     strip (replace ''```'' [] (replace ''```json'' [] (strip response_text)))"

text \<open>\<open>key in classification\<close>, by the type of the parsed value.\<close>

fun key_in :: "classifier_env \<Rightarrow> string \<Rightarrow> json \<Rightarrow> bool outcome" where
  "key_in env key (JObject kvs) = Return (key \<in> set (map fst kvs))"
| "key_in env key (JArray xs) = Return (JString key \<in> set xs)"
| "key_in env key (JString s) = Return (contains key s)"
| "key_in env key v = Raise (Exn ''TypeError'' (not_iterable_msg env v))"

text \<open>\<open>all(key in classification for key in required_keys)\<close>, stopping at the first miss.\<close>

fun all_keys_in :: "classifier_env \<Rightarrow> string list \<Rightarrow> json \<Rightarrow> bool outcome" where
  "all_keys_in env [] classification = Return True"
| "all_keys_in env (key # keys) classification =
     (case key_in env key classification of
        Raise e \<Rightarrow> Raise e
      | Return b \<Rightarrow> if b then all_keys_in env keys classification else Return False)"

definition required_keys :: "string list" where
  "required_keys = [''topic_tags'', ''sentiment'', ''priority'']"

text \<open>The exception raised when a required key is missing: \<open>classification.keys()\<close> is read first.\<close>

fun missing_keys_error :: "classifier_env \<Rightarrow> json \<Rightarrow> exn" where
  "missing_keys_error env (JObject kvs) =
     Exn ''ValueError''
       (''LLM response is missing one or more required keys. Got: '' @ keys_str env (map fst kvs))"
| "missing_keys_error env v = Exn ''AttributeError'' (no_attribute_msg env ''keys'')"

text \<open>The two handlers of \<open>classify_ticket\<close>; \<open>response\<close> is bound once the model has returned.\<close>

definition handle_classify :: "response option \<Rightarrow> exn \<Rightarrow> classify_result outcome" where
  "handle_classify response e =
     (if exn_class e = ''JSONDecodeError'' then
        (case response of
           None \<Rightarrow> Return (ClassifyError ''Failed to decode JSON from LLM response.'' (Some (PyStr ''N/A'')))
         | Some r \<Rightarrow>
             (case text_of r of
                Raise e' \<Rightarrow> Raise e'
              | Return raw_response \<Rightarrow>
                  Return (ClassifyError ''Failed to decode JSON from LLM response.'' (Some raw_response))))
      else Return (ClassifyError (''An unexpected error occurred: '' @ exn_msg e) None))"

definition classify_ticket ::
    "classifier_env \<Rightarrow> string \<Rightarrow> classify_result outcome \<times> string list" where
  "classify_ticket env ticket_text =
     (if ticket_text = [] then
        (Return (ClassifyError ''Input ticket text cannot be empty.'' None), [])
      else
        (let prompt = prompt_before env @ ticket_text @ prompt_after env in
         (case generate_content env prompt of
            Raise e \<Rightarrow> (handle_classify None e, [prompt])
          | Return response \<Rightarrow>
              (case text_of response of
                 Raise e \<Rightarrow> (handle_classify (Some response) e, [prompt])
               | Return PyNone \<Rightarrow>
                   (handle_classify (Some response)
                      (Exn ''AttributeError'' (no_attribute_msg env ''strip'')), [prompt])
               | Return (PyStr t) \<Rightarrow>
                   (case json_loads env (clean_llm_response t) of
                      Raise e \<Rightarrow> (handle_classify (Some response) e, [prompt])
                    | Return classification \<Rightarrow>
                        (case all_keys_in env required_keys classification of
                           Raise e \<Rightarrow> (handle_classify (Some response) e, [prompt])
                         | Return ok \<Rightarrow>
                             if ok then (Return (Classification classification), [prompt])
                             else (handle_classify (Some response)
                                     (missing_keys_error env classification), [prompt])))))))"

section \<open>The retrieval-augmented pipeline (\<open>pipeline/rag.py\<close>)\<close>

text \<open>
  A LangChain document: its text and the \<open>source\<close> entry of its metadata, which is
  absent (\<open>None\<close> here), Python's \<open>None\<close>, or a string.
\<close>

record document =
  page_content :: string
  metadata_source :: "pyval option"

text \<open>\<open>doc.metadata.get('source', default)\<close>.\<close>

definition metadata_get :: "document \<Rightarrow> pyval \<Rightarrow> pyval" where
  "metadata_get doc dflt = (case metadata_source doc of None \<Rightarrow> dflt | Some v \<Rightarrow> v)"

text \<open>
  A vector store, seen through \<open>as_retriever(search_kwargs={"k": k}).invoke(question)\<close>:
  the search raises or returns documents.
\<close>

type_synonym vector_store = "nat \<Rightarrow> string \<Rightarrow> document list outcome"

record pipeline =
  vector_store :: "vector_store option"
  llm :: generative_model

text \<open>The three parts of \<open>RAG_PROMPT_TEMPLATE\<close> around \<open>{context}\<close> and \<open>{question}\<close>.\<close>

record rag_prompt_template =
  before_context :: string
  before_question :: string
  after_question :: string

definition format_rag_prompt :: "rag_prompt_template \<Rightarrow> string \<Rightarrow> string \<Rightarrow> string" where
  "format_rag_prompt t context_str question =
     before_context t @ context_str @ before_question t @ question @ after_question t"

text \<open>The result dictionary: \<open>{answer, sources[, context_used]}\<close> or \<open>{error}\<close>.\<close>

datatype rag_result =
    RagAnswer (result_answer: string) (result_sources: "pyval list") (result_context_used: "nat option")
  | RagError string

definition source_key :: "document \<Rightarrow> nat \<times> string" where
  "source_key doc =
     (let src = lower (or_empty (metadata_get doc (PyStr [])))
      in if contains ''docs.atlan.com'' src \<or> contains ''developer.atlan.com'' src
         then (0, src) else (1, src))"

text \<open>\<open>sorted(relevant_docs, key=source_key)\<close>: Python's sort is stable, as \<open>sort_key\<close> is.\<close>

definition sorted_docs_of :: "document list \<Rightarrow> document list" where
  "sorted_docs_of relevant_docs = sort_key source_key relevant_docs"

text \<open>The first loop over the sorted documents, with the list \<open>sources\<close> built so far.\<close>

fun collect_sources :: "pyval list \<Rightarrow> document list \<Rightarrow> pyval list" where
  "collect_sources sources [] = sources"
| "collect_sources sources (doc # docs) =
     (let source_url = metadata_get doc (PyStr ''N/A'')
      in if source_url \<noteq> PyStr ''N/A'' \<and> source_url \<notin> set sources
         then collect_sources (sources @ [source_url]) docs
         else collect_sources sources docs)"

text \<open>The second loop, with the list \<open>unique_sources\<close> built so far.\<close>

fun dedupe_sources :: "pyval list \<Rightarrow> pyval list \<Rightarrow> pyval list" where
  "dedupe_sources unique_sources [] = unique_sources"
| "dedupe_sources unique_sources (s # ss) =
     (if truthy s \<and> s \<notin> set unique_sources
      then dedupe_sources (unique_sources @ [s]) ss
      else dedupe_sources unique_sources ss)"

definition returned_sources :: "document list \<Rightarrow> pyval list" where
  "returned_sources sorted_docs = take 5 (dedupe_sources [] (collect_sources [] sorted_docs))"

definition no_evidence_answer :: string where
  "no_evidence_answer =
     ''I do not have enough information to answer this question based on the available knowledge base. Please try rephrasing your question or contact our support team for assistance.''"

definition generation_error :: "exn \<Rightarrow> rag_result" where
  "generation_error e = RagError (''Failed to generate an answer from the LLM: '' @ exn_msg e)"

text \<open>
  \<open>get_rag_answer\<close>: the result or the exception that leaves the function, and the prompts
  sent to the model.  The retrieval stands before the \<open>try\<close>, the model call inside it.
\<close>

definition get_rag_answer ::
    "rag_prompt_template \<Rightarrow> pipeline \<Rightarrow> string \<Rightarrow> rag_result outcome \<times> string list" where
  "get_rag_answer tmpl self question =
     (case vector_store self of
        None \<Rightarrow> (Return (RagError ''Vector store is not available.''), [])
      | Some store \<Rightarrow>
          (case store 8 question of
             Raise e \<Rightarrow> (Raise e, [])
           | Return relevant_docs \<Rightarrow>
               if relevant_docs = [] then (Return (RagAnswer no_evidence_answer [] None), [])
               else
                 (let sorted_docs = sorted_docs_of relevant_docs;
                      context_str = join ''\<newline>\<newline>'' (map page_content sorted_docs);
                      prompt = format_rag_prompt tmpl context_str question
                  in (case llm self prompt of
                        Raise e \<Rightarrow> (Return (generation_error e), [prompt])
                      | Return response \<Rightarrow>
                          (case text_of response of
                             Raise e \<Rightarrow> (Return (generation_error e), [prompt])
                           | Return t \<Rightarrow>
                               (Return (RagAnswer (or_empty t) (returned_sources sorted_docs)
                                          (Some (length relevant_docs))),
                                [prompt]))))))"

text \<open>\<open>query\<close>: the interface of the UI; it catches what \<open>get_rag_answer\<close> raises.\<close>

definition query ::
    "rag_prompt_template \<Rightarrow> pipeline \<Rightarrow> string \<Rightarrow> string \<Rightarrow> string \<times> string list" where
  "query tmpl self question context_text =
     (let enhanced_question =
            (if context_text \<noteq> [] then question @ ''\<newline>\<newline>Additional context: '' @ context_text
             else question)
      in (case get_rag_answer tmpl self enhanced_question of
            (Raise e, sent) \<Rightarrow>
              (''I'' @ [CHR 0x27] @ ''m sorry, I encountered an error while processing your question: ''
                 @ exn_msg e, sent)
          | (Return (RagError err), sent) \<Rightarrow>
              (''I encountered an issue while processing your request: '' @ err, sent)
          | (Return (RagAnswer a srcs used), sent) \<Rightarrow> (a, sent)))"

section \<open>The index build (\<open>_ensure_local_vector_store\<close>, \<open>_load_vector_store\<close>)\<close>

text \<open>
  A record of the knowledge base: the values under \<open>content\<close> and \<open>url\<close>, each absent,
  \<open>null\<close> or a string.  The knowledge base is a list of such records.
\<close>

record kb_item =
  content :: "pyval option"
  url :: "pyval option"

text \<open>\<open>item.get(key)\<close> and \<open>item.get(key, '')\<close>; the field stands for the key.\<close>

definition item_get :: "(kb_item \<Rightarrow> pyval option) \<Rightarrow> kb_item \<Rightarrow> pyval \<Rightarrow> pyval" where
  "item_get field item dflt = (case field item of None \<Rightarrow> dflt | Some v \<Rightarrow> v)"

text \<open>What stands at a path: nothing, a regular file, or a directory with its entries.\<close>

datatype node = Absent | RegularFile | Directory "string list"

text \<open>
  The two paths the build looks at.  The knowledge base is \<open>None\<close> when
  \<open>os.path.isfile\<close> is false; otherwise it holds what \<open>open\<close> and \<open>json.load\<close> give.
\<close>

record filesystem =
  vector_store_path :: node
  knowledge_base_path :: "kb_item list outcome option"

text \<open>
  The libraries: the text splitter, the constructor of the embedding model, and Chroma,
  which writes into the directory (\<open>from_documents\<close>) or opens it (\<open>chroma\<close>), and may
  change what stands at the path either way.
\<close>

record build_env =
  split_documents :: "document list \<Rightarrow> document list"
  embeddings :: "unit outcome"
  from_documents :: "document list \<Rightarrow> node \<Rightarrow> node \<times> unit outcome"
  chroma :: "node \<Rightarrow> node \<times> vector_store outcome"
  file_exists_msg :: string

text \<open>The calls a build makes, in order.\<close>

datatype action =
    SplitDocuments "document list"
  | MakeDirs
  | Embeddings
  | FromDocuments "document list"
  | OpenStore

text \<open>\<open>os.path.isdir(p) and any(os.scandir(p))\<close>.\<close>

fun is_populated :: "node \<Rightarrow> bool" where
  "is_populated (Directory entries) = (entries \<noteq> [])"
| "is_populated n = False"

text \<open>\<open>os.makedirs(p, exist_ok=True)\<close>.\<close>

fun makedirs :: "build_env \<Rightarrow> node \<Rightarrow> node outcome" where
  "makedirs env Absent = Return (Directory [])"
| "makedirs env (Directory entries) = Return (Directory entries)"
| "makedirs env RegularFile = Raise (Exn ''FileExistsError'' (file_exists_msg env))"

text \<open>The comprehension that turns records into documents, \<open>if item.get('content')\<close>.\<close>

definition documents_of_kb :: "kb_item list \<Rightarrow> document list" where
  "documents_of_kb kb_data =
     [\<lparr>page_content = or_empty (item_get content item (PyStr [])),
       metadata_source = Some (item_get url item (PyStr []))\<rparr>.
      item \<leftarrow> kb_data, truthy (item_get content item PyNone)]"

definition ensure_local_vector_store ::
    "build_env \<Rightarrow> filesystem \<Rightarrow> unit outcome \<times> filesystem \<times> action list" where
  "ensure_local_vector_store env fs =
     (if is_populated (vector_store_path fs) then (Return (), fs, [])
      else
        (case knowledge_base_path fs of
           None \<Rightarrow> (Return (), fs, [])
         | Some loaded \<Rightarrow>
             (let kb_data = (case loaded of Raise e \<Rightarrow> [] | Return d \<Rightarrow> d) in
              if kb_data = [] then (Return (), fs, [])
              else
                (let documents = documents_of_kb kb_data in
                 if documents = [] then (Return (), fs, [])
                 else
                   (let chunks = split_documents env documents in
                    if chunks = [] then (Return (), fs, [SplitDocuments documents])
                    else
                      (case makedirs env (vector_store_path fs) of
                         Raise e \<Rightarrow> (Raise e, fs, [SplitDocuments documents, MakeDirs])
                       | Return dir \<Rightarrow>
                           (case embeddings env of
                              Raise e \<Rightarrow>
                                (Raise e, fs\<lparr>vector_store_path := dir\<rparr>,
                                 [SplitDocuments documents, MakeDirs, Embeddings])
                            | Return u \<Rightarrow>
                                (case from_documents env chunks dir of
                                   (dir', r) \<Rightarrow>
                                     (r, fs\<lparr>vector_store_path := dir'\<rparr>,
                                      [SplitDocuments documents, MakeDirs, Embeddings,
                                       FromDocuments chunks])))))))))"

text \<open>\<open>_load_vector_store\<close>: \<open>None\<close> exactly when the constructor of Chroma raises.\<close>

definition load_vector_store ::
    "build_env \<Rightarrow> filesystem \<Rightarrow> vector_store option outcome \<times> filesystem \<times> action list" where
  "load_vector_store env fs =
     (case ensure_local_vector_store env fs of
        (Raise e, fs1, done) \<Rightarrow> (Raise e, fs1, done)
      | (Return u, fs1, done) \<Rightarrow>
          (case embeddings env of
             Raise e \<Rightarrow> (Raise e, fs1, done @ [Embeddings])
           | Return u' \<Rightarrow>
               (case chroma env (vector_store_path fs1) of
                  (dir, Raise e) \<Rightarrow>
                    (Return None, fs1\<lparr>vector_store_path := dir\<rparr>, done @ [Embeddings, OpenStore])
                | (dir, Return store) \<Rightarrow>
                    (Return (Some store), fs1\<lparr>vector_store_path := dir\<rparr>,
                     done @ [Embeddings, OpenStore]))))"

text \<open>\<open>RAGPipeline()\<close>: the constructor.\<close>

definition init_pipeline ::
    "build_env \<Rightarrow> generative_model \<Rightarrow> filesystem \<Rightarrow> pipeline outcome \<times> filesystem \<times> action list" where
  "init_pipeline env model fs =
     (case load_vector_store env fs of
        (Raise e, fs1, done) \<Rightarrow> (Raise e, fs1, done)
      | (Return store, fs1, done) \<Rightarrow> (Return \<lparr>vector_store = store, llm = model\<rparr>, fs1, done))"

subsection \<open>The offline builder (\<open>scripts/vector_store_script.py\<close>)\<close>

text \<open>
  \<open>create_documents_from_data\<close> reads \<open>item['content']\<close> and \<open>item['url']\<close>: a kept record
  without \<open>url\<close> raises \<open>KeyError\<close>.
\<close>

fun create_documents_from_data :: "kb_item list \<Rightarrow> document list outcome" where
  "create_documents_from_data [] = Return []"
| "create_documents_from_data (item # data) =
     (if truthy (item_get content item PyNone) then
        (case url item of
           None \<Rightarrow> Raise (Exn ''KeyError'' ([CHR 0x27] @ ''url'' @ [CHR 0x27]))
         | Some u \<Rightarrow>
             (case create_documents_from_data data of
                Raise e \<Rightarrow> Raise e
              | Return documents \<Rightarrow>
                  Return (\<lparr>page_content = or_empty (item_get content item PyNone),
                           metadata_source = Some u\<rparr> # documents)))
      else create_documents_from_data data)"

section \<open>Derived notions used in the statements\<close>

text \<open>The key of the sort, read in its two parts: the tier and the lowered source.\<close>

definition lowered_source :: "document \<Rightarrow> string" where
  "lowered_source doc = lower (or_empty (metadata_get doc (PyStr [])))"

definition authoritative :: "document \<Rightarrow> bool" where
  "authoritative doc =
     (contains ''docs.atlan.com'' (lowered_source doc)
      \<or> contains ''developer.atlan.com'' (lowered_source doc))"

definition tier :: "document \<Rightarrow> nat" where
  "tier doc = (if authoritative doc then 0 else 1)"

text \<open>Keeping the first occurrence of every element, in order.\<close>

fun first_occurrences :: "'a list \<Rightarrow> 'a list" where
  "first_occurrences [] = []"
| "first_occurrences (x # xs) = x # first_occurrences (filter (\<lambda>y. y \<noteq> x) xs)"

text \<open>What the citation loop reads from a document, and the values it keeps.\<close>

definition source_or_na :: "document \<Rightarrow> pyval" where
  "source_or_na doc = metadata_get doc (PyStr ''N/A'')"

definition citable :: "pyval \<Rightarrow> bool" where
  "citable s = (s \<noteq> PyStr ''N/A'' \<and> truthy s)"

text \<open>The knowledge base a build reads: empty when the file cannot be read or parsed.\<close>

definition kb_data_of :: "kb_item list outcome \<Rightarrow> kb_item list" where
  "kb_data_of loaded = (case loaded of Raise e \<Rightarrow> [] | Return d \<Rightarrow> d)"

text \<open>The prompt of a question over retrieved documents.\<close>

definition prompt_of :: "rag_prompt_template \<Rightarrow> document list \<Rightarrow> string \<Rightarrow> string" where
  "prompt_of tmpl relevant_docs question =
     format_rag_prompt tmpl
       (join ''\<newline>\<newline>'' (map page_content (sorted_docs_of relevant_docs))) question"

text \<open>The generation step fails: the call raises, or reading the text of its response does.\<close>

definition generation_fails :: "generative_model \<Rightarrow> string \<Rightarrow> exn \<Rightarrow> bool" where
  "generation_fails model prompt e =
     (case model prompt of
        Raise e' \<Rightarrow> e' = e
      | Return response \<Rightarrow> text_of response = Raise e)"

section \<open>The specification's wording, for comparison\<close>

text \<open>
  Citation extraction as the specification words it: walk the prioritized chunks, skip the
  sentinel, keep first occurrences, truncate to five.
\<close>

definition spec_citations :: "document list \<Rightarrow> pyval list" where
  "spec_citations prioritized =
     take 5 (first_occurrences
               (filter (\<lambda>s. s \<noteq> PyStr ''N/A'') (map source_or_na prioritized)))"

text \<open>
  Prioritization as the specification words it: the tier is decided on the source URL,
  and each tier is in the lexicographic order of the source URL.
\<close>

definition spec_source :: "document \<Rightarrow> string" where
  "spec_source doc = or_empty (metadata_get doc (PyStr []))"

definition spec_authoritative :: "document \<Rightarrow> bool" where
  "spec_authoritative doc =
     (contains ''docs.atlan.com'' (spec_source doc)
      \<or> contains ''developer.atlan.com'' (spec_source doc))"

definition spec_prioritized :: "document list \<Rightarrow> bool" where
  "spec_prioritized out =
     (sorted (map (\<lambda>d. if spec_authoritative d then 0 else (1::nat)) out)
      \<and> sorted (map spec_source (filter spec_authoritative out))
      \<and> sorted (map spec_source (filter (\<lambda>d. \<not> spec_authoritative d) out)))"

section \<open>Concrete pipelines\<close>

definition example_template :: rag_prompt_template where
  "example_template =
     \<lparr>before_context = ''Context: '', before_question = '' Question: '',
      after_question = '' Final Answer:''\<rparr>"

definition model_ok :: generative_model where
  "model_ok = (\<lambda>prompt. Return \<lparr>text_of = Return (PyStr ''Open Settings.'')\<rparr>)"

definition model_down :: generative_model where
  "model_down = (\<lambda>prompt. Raise (Exn ''ResourceExhausted'' ''quota exceeded''))"

definition store_of :: "document list \<Rightarrow> vector_store" where
  "store_of docs = (\<lambda>k question. Return (take k docs))"

definition store_down :: vector_store where
  "store_down = (\<lambda>k question. Raise (Exn ''ConnectionError'' ''index unreachable''))"

definition doc_sso :: document where
  "doc_sso =
     \<lparr>page_content = ''Go to Settings.'',
      metadata_source = Some (PyStr ''https://docs.atlan.com/SSO'')\<rparr>"

definition doc_api :: document where
  "doc_api =
     \<lparr>page_content = ''Create an API key.'',
      metadata_source = Some (PyStr ''https://docs.atlan.com/api'')\<rparr>"

definition doc_blog :: document where
  "doc_blog =
     \<lparr>page_content = ''A blog post.'',
      metadata_source = Some (PyStr ''https://blog.example.com/sso'')\<rparr>"

definition doc_unlabelled :: document where
  "doc_unlabelled = \<lparr>page_content = ''No metadata.'', metadata_source = None\<rparr>"

text \<open>A chunk of a record without \<open>url\<close>: the build stores the empty string as its source.\<close>

definition doc_without_url :: document where
  "doc_without_url = \<lparr>page_content = ''Some text.'', metadata_source = Some (PyStr [])\<rparr>"

text \<open>
  Libraries that work: every document is one chunk, the embedding model loads, Chroma
  writes one file, and opening a path creates the directory when it is absent and gives
  a store without records.
\<close>

definition example_env :: build_env where
  "example_env =
     \<lparr>split_documents = (\<lambda>documents. documents),
      embeddings = Return (),
      from_documents = (\<lambda>chunks dir. (Directory [''chroma.sqlite3''], Return ())),
      chroma = (\<lambda>dir. (case dir of Absent \<Rightarrow> Directory [''chroma.sqlite3''] | d \<Rightarrow> d,
                        Return (store_of []))),
      file_exists_msg = ''File exists''\<rparr>"

text \<open>The same, with a Chroma whose constructor raises.\<close>

definition broken_env :: build_env where
  "broken_env =
     example_env\<lparr>chroma := (\<lambda>dir. (dir, Raise (Exn ''InternalError'' ''database is corrupt'')))\<rparr>"

definition blank_item :: kb_item where
  "blank_item =
     \<lparr>content = Some (PyStr ''   ''), url = Some (PyStr ''https://docs.atlan.com/blank'')\<rparr>"

definition empty_item :: kb_item where
  "empty_item = \<lparr>content = Some (PyStr []), url = Some (PyStr ''https://docs.atlan.com/empty'')\<rparr>"

definition sso_item :: kb_item where
  "sso_item =
     \<lparr>content = Some (PyStr ''To enable SSO, go to Settings.''),
      url = Some (PyStr ''https://docs.atlan.com/sso'')\<rparr>"

section \<open>Citation extraction\<close>

lemma set_first_occurrences: "set (first_occurrences xs) = set xs"
  by (induction xs rule: first_occurrences.induct) auto

lemma distinct_first_occurrences: "distinct (first_occurrences xs)"
  by (induction xs rule: first_occurrences.induct) (auto simp: set_first_occurrences)

lemma filter_first_occurrences:
  "filter P (first_occurrences xs) = first_occurrences (filter P xs)"
proof (induction xs rule: first_occurrences.induct)
  case 1
  show ?case by simp
next
  case (2 x xs)
  have comm: "filter P (filter (\<lambda>y. y \<noteq> x) xs) = filter (\<lambda>y. y \<noteq> x) (filter P xs)"
    by (simp add: conj_commute)
  show ?case
  proof (cases "P x")
    case True
    then show ?thesis using 2 comm by simp
  next
    case False
    have "filter P (filter (\<lambda>y. y \<noteq> x) xs) = filter P xs"
      using False by (auto intro: filter_cong)
    then show ?thesis using False 2 by simp
  qed
qed

lemma first_occurrences_distinct: "distinct xs \<Longrightarrow> first_occurrences xs = xs"
proof (induction xs)
  case Nil
  show ?case by simp
next
  case (Cons x xs)
  then have "filter (\<lambda>y. y \<noteq> x) xs = xs" by (auto intro: filter_True)
  with Cons show ?case by simp
qed

text \<open>The first loop appends, to what it has, the first occurrences of the new values.\<close>

lemma collect_sources_eq:
  "collect_sources acc docs =
     acc @ first_occurrences
             (filter (\<lambda>s. s \<noteq> PyStr ''N/A'' \<and> s \<notin> set acc) (map source_or_na docs))"
proof (induction docs arbitrary: acc)
  case Nil
  show ?case by simp
next
  case (Cons doc docs)
  let ?s = "source_or_na doc"
  show ?case
  proof (cases "?s \<noteq> PyStr ''N/A'' \<and> ?s \<notin> set acc")
    case True
    have "(\<lambda>y. (y \<noteq> PyStr ''N/A'' \<and> y \<notin> set acc) \<and> y \<noteq> ?s)
        = (\<lambda>y. y \<noteq> PyStr ''N/A'' \<and> y \<notin> set (acc @ [?s]))"
      by auto
    then show ?thesis using True Cons[of "acc @ [?s]"]
      by (simp add: source_or_na_def [symmetric] Let_def)
  next
    case False
    then show ?thesis using Cons[of acc]
      by (auto simp add: source_or_na_def [symmetric] Let_def)
  qed
qed

lemma dedupe_sources_eq:
  "dedupe_sources acc ss =
     acc @ first_occurrences (filter (\<lambda>s. truthy s \<and> s \<notin> set acc) ss)"
proof (induction ss arbitrary: acc)
  case Nil
  show ?case by simp
next
  case (Cons s ss)
  show ?case
  proof (cases "truthy s \<and> s \<notin> set acc")
    case True
    have "(\<lambda>y. (truthy y \<and> y \<notin> set acc) \<and> y \<noteq> s)
        = (\<lambda>y. truthy y \<and> y \<notin> set (acc @ [s]))"
      by auto
    then show ?thesis using True Cons[of "acc @ [s]"] by simp
  next
    case False
    then show ?thesis using Cons[of acc] by auto
  qed
qed

lemma returned_sources_eq:
  "returned_sources sorted_docs =
     take 5 (first_occurrences (filter citable (map source_or_na sorted_docs)))"
proof -
  let ?vals = "map source_or_na sorted_docs"
  let ?kept = "filter (\<lambda>s. s \<noteq> PyStr ''N/A'') ?vals"
  have c: "collect_sources [] sorted_docs = first_occurrences ?kept"
    by (simp add: collect_sources_eq)
  have "dedupe_sources [] (collect_sources [] sorted_docs)
      = first_occurrences (filter truthy (first_occurrences ?kept))"
    by (simp add: dedupe_sources_eq c)
  also have "\<dots> = first_occurrences (first_occurrences (filter truthy ?kept))"
    by (simp add: filter_first_occurrences)
  also have "\<dots> = first_occurrences (filter truthy ?kept)"
    by (simp add: first_occurrences_distinct distinct_first_occurrences)
  also have "filter truthy ?kept = filter citable ?vals"
    unfolding filter_filter by (rule filter_cong) (auto simp: citable_def)
  finally show ?thesis by (simp add: returned_sources_def)
qed

lemma sorted_two_docs: "sorted_docs_of [doc_sso, doc_api] = [doc_api, doc_sso]"
  by (simp add: sorted_docs_of_def source_key_def doc_sso_def doc_api_def metadata_get_def
        lower_def lower_char_def Let_def)

lemma sorted_four_docs:
  "sorted_docs_of [doc_blog, doc_sso, doc_unlabelled, doc_sso] =
     [doc_sso, doc_sso, doc_unlabelled, doc_blog]"
  by (simp add: sorted_docs_of_def source_key_def doc_sso_def doc_blog_def doc_unlabelled_def
        metadata_get_def lower_def lower_char_def Let_def)

text \<open>
  C1 (as amended).  When \<open>get_rag_answer\<close> returns an answer, its sources are built by
  walking the prioritized chunks in order, reading each chunk's source (\<open>'N/A'\<close> when the
  metadata has none), skipping the \<open>'N/A'\<close> sentinel and every empty or \<open>None\<close> source,
  keeping the first occurrence of each value and truncating to five; so the list has at
  most five elements and no duplicate.
\<close>

theorem get_rag_answer_sources:
  assumes "vector_store self = Some store"
    and "store 8 question = Return relevant_docs"
    and "fst (get_rag_answer tmpl self question) = Return (RagAnswer a srcs used)"
  shows "srcs = take 5 (first_occurrences
                         (filter citable (map source_or_na (sorted_docs_of relevant_docs))))
       \<and> length srcs \<le> 5 \<and> distinct srcs"
proof -
  have eq: "srcs = take 5 (first_occurrences
                            (filter citable (map source_or_na (sorted_docs_of relevant_docs))))"
  proof (cases "relevant_docs = []")
    case True
    then show ?thesis using assms by (simp add: get_rag_answer_def sorted_docs_of_def)
  next
    case False
    then show ?thesis using assms
      by (auto simp add: get_rag_answer_def Let_def returned_sources_eq generation_error_def
               split: outcome.splits)
  qed
  then show ?thesis by (simp add: distinct_first_occurrences)
qed

theorem get_rag_answer_sources_witness:
  "vector_store \<lparr>vector_store = Some (store_of [doc_blog, doc_sso, doc_unlabelled, doc_sso]),
                 llm = model_ok\<rparr>
     = Some (store_of [doc_blog, doc_sso, doc_unlabelled, doc_sso])
   \<and> store_of [doc_blog, doc_sso, doc_unlabelled, doc_sso] 8 ''How do I enable SSO?''
       = Return [doc_blog, doc_sso, doc_unlabelled, doc_sso]
   \<and> fst (get_rag_answer example_template
            \<lparr>vector_store = Some (store_of [doc_blog, doc_sso, doc_unlabelled, doc_sso]),
             llm = model_ok\<rparr> ''How do I enable SSO?'')
       = Return (RagAnswer ''Open Settings.''
                   [PyStr ''https://docs.atlan.com/SSO'', PyStr ''https://blog.example.com/sso'']
                   (Some 4))
   \<and> [PyStr ''https://docs.atlan.com/SSO'', PyStr ''https://blog.example.com/sso'']
       = take 5 (first_occurrences (filter citable (map source_or_na
           (sorted_docs_of [doc_blog, doc_sso, doc_unlabelled, doc_sso]))))
   \<and> length [PyStr ''https://docs.atlan.com/SSO'', PyStr ''https://blog.example.com/sso''] \<le> 5
   \<and> distinct [PyStr ''https://docs.atlan.com/SSO'', PyStr ''https://blog.example.com/sso'']"
proof -
  let ?docs = "[doc_blog, doc_sso, doc_unlabelled, doc_sso]"
  let ?self = "\<lparr>vector_store = Some (store_of ?docs), llm = model_ok\<rparr>"
  have h1: "vector_store ?self = Some (store_of ?docs)" by simp
  have h2: "store_of ?docs 8 ''How do I enable SSO?'' = Return ?docs"
    by (simp add: store_of_def)
  have srcs: "returned_sources [doc_sso, doc_sso, doc_unlabelled, doc_blog]
      = [PyStr ''https://docs.atlan.com/SSO'', PyStr ''https://blog.example.com/sso'']"
    by (simp add: returned_sources_def doc_sso_def doc_blog_def doc_unlabelled_def
          metadata_get_def)
  have h3: "fst (get_rag_answer example_template ?self ''How do I enable SSO?'')
      = Return (RagAnswer ''Open Settings.''
                  [PyStr ''https://docs.atlan.com/SSO'', PyStr ''https://blog.example.com/sso'']
                  (Some 4))"
    by (simp add: get_rag_answer_def h2 sorted_four_docs srcs model_ok_def Let_def)
  from get_rag_answer_sources [OF h1 h2 h3] h1 h2 h3 show ?thesis by blast
qed

text \<open>
  The claim as stated fails on a chunk whose source is the empty string (what the build
  stores for a record without \<open>url\<close>): the stated algorithm keeps it, the code drops it.
\<close>

theorem get_rag_answer_sources_counterexample:
  "fst (get_rag_answer example_template
          \<lparr>vector_store = Some (store_of [doc_without_url]), llm = model_ok\<rparr>
          ''How do I enable SSO?'')
     = Return (RagAnswer ''Open Settings.'' [] (Some 1))
   \<and> spec_citations (sorted_docs_of [doc_without_url]) = [PyStr []]"
  by (simp add: get_rag_answer_def store_of_def sorted_docs_of_def model_ok_def Let_def
        returned_sources_def spec_citations_def source_or_na_def doc_without_url_def
        metadata_get_def)

section \<open>Source prioritization\<close>

lemma source_key_eq: "source_key doc = (tier doc, lowered_source doc)"
  by (simp add: source_key_def tier_def authoritative_def lowered_source_def Let_def)

lemma sorted_map_fst:
  fixes ps :: "(nat \<times> string) list"
  shows "sorted ps \<Longrightarrow> sorted (map fst ps)"
  by (induction ps) (auto simp: less_eq_prod_def)

lemma sorted_snd_same_fst:
  fixes ps :: "(nat \<times> string) list"
  shows "sorted ps \<Longrightarrow> \<forall>p \<in> set ps. fst p = t \<Longrightarrow> sorted (map snd ps)"
  by (induction ps) (auto simp: less_eq_prod_def)

lemma sorted_tier: "sorted (map tier (sorted_docs_of docs))"
proof -
  have "sorted (map source_key (sorted_docs_of docs))"
    by (simp add: sorted_docs_of_def)
  then have s: "sorted (map fst (map source_key (sorted_docs_of docs)))"
    by (rule sorted_map_fst)
  have eq: "map fst (map source_key (sorted_docs_of docs)) = map tier (sorted_docs_of docs)"
    by (simp add: source_key_eq)
  from s [unfolded eq] show ?thesis .
qed

lemma sorted_within_tier:
  "sorted (map lowered_source (filter (\<lambda>d. tier d = t) (sorted_docs_of docs)))"
proof -
  let ?out = "filter (\<lambda>d. tier d = t) (sorted_docs_of docs)"
  have "sorted (map source_key ?out)"
    by (simp add: sorted_docs_of_def sorted_filter)
  moreover have "\<forall>p \<in> set (map source_key ?out). fst p = t"
    by (auto simp: source_key_eq)
  ultimately have s: "sorted (map snd (map source_key ?out))"
    by (rule sorted_snd_same_fst)
  have eq: "map snd (map source_key ?out) = map lowered_source ?out"
    by (simp add: source_key_eq)
  from s [unfolded eq] show ?thesis .
qed

text \<open>A list in the order of the tiers is its authoritative part followed by the rest.\<close>

lemma tiers_split:
  "sorted (map tier out) \<Longrightarrow>
   out = filter authoritative out @ filter (\<lambda>d. \<not> authoritative d) out"
proof (induction out)
  case Nil
  show ?case by simp
next
  case (Cons d out)
  then have ih: "out = filter authoritative out @ filter (\<lambda>d. \<not> authoritative d) out"
    by simp
  show ?case
  proof (cases "authoritative d")
    case True
    then show ?thesis using ih by simp
  next
    case False
    then have "\<forall>x \<in> set out. \<not> authoritative x"
      using Cons.prems by (auto simp: tier_def split: if_splits)
    then have "filter authoritative out = []" and "filter (\<lambda>d. \<not> authoritative d) out = out"
      by (auto simp: filter_empty_conv intro: filter_True)
    then show ?thesis using False by simp
  qed
qed

text \<open>
  C2 (as amended).  Prioritization is a deterministic stable reordering of the retrieved
  chunks: the output is a permutation of the input; every chunk whose lowercased source
  contains \<open>docs.atlan.com\<close> or \<open>developer.atlan.com\<close> (tier 0) precedes every other
  chunk (tier 1); within each tier the chunks are in the lexicographic order of their
  lowercased sources; and chunks with equal keys keep their input order.  Being a
  function of the input list, the output order is the same for the same input.
\<close>

theorem sorted_docs_of_prioritizes:
  "mset (sorted_docs_of docs) = mset docs
   \<and> sorted_docs_of docs
       = filter authoritative (sorted_docs_of docs)
         @ filter (\<lambda>d. \<not> authoritative d) (sorted_docs_of docs)
   \<and> sorted (map lowered_source (filter authoritative (sorted_docs_of docs)))
   \<and> sorted (map lowered_source (filter (\<lambda>d. \<not> authoritative d) (sorted_docs_of docs)))
   \<and> filter (\<lambda>d. source_key d = k) (sorted_docs_of docs)
       = filter (\<lambda>d. source_key d = k) docs"
proof -
  have a: "authoritative = (\<lambda>d. tier d = 0)"
    and b: "(\<lambda>d. \<not> authoritative d) = (\<lambda>d. tier d = 1)"
    by (auto simp: tier_def fun_eq_iff)
  have "mset (sorted_docs_of docs) = mset docs"
    by (simp add: sorted_docs_of_def)
  moreover have "sorted_docs_of docs
       = filter authoritative (sorted_docs_of docs)
         @ filter (\<lambda>d. \<not> authoritative d) (sorted_docs_of docs)"
    using sorted_tier by (rule tiers_split)
  moreover have "sorted (map lowered_source (filter authoritative (sorted_docs_of docs)))"
    unfolding a by (rule sorted_within_tier)
  moreover have
    "sorted (map lowered_source (filter (\<lambda>d. \<not> authoritative d) (sorted_docs_of docs)))"
    unfolding b by (rule sorted_within_tier)
  moreover have "filter (\<lambda>d. source_key d = k) (sorted_docs_of docs)
       = filter (\<lambda>d. source_key d = k) docs"
    by (simp add: sorted_docs_of_def sort_key_stable)
  ultimately show ?thesis by blast
qed

theorem sorted_docs_of_prioritizes_witness:
  "sorted_docs_of [doc_blog, doc_sso, doc_unlabelled, doc_sso]
     = [doc_sso, doc_sso, doc_unlabelled, doc_blog]
   \<and> sorted_docs_of [doc_blog, doc_sso, doc_unlabelled, doc_sso]
       = filter authoritative (sorted_docs_of [doc_blog, doc_sso, doc_unlabelled, doc_sso])
         @ filter (\<lambda>d. \<not> authoritative d)
             (sorted_docs_of [doc_blog, doc_sso, doc_unlabelled, doc_sso])"
  using sorted_docs_of_prioritizes [of "[doc_blog, doc_sso, doc_unlabelled, doc_sso]"]
    sorted_four_docs
  by blast

text \<open>
  The claim as stated fails on two chunks of the same tier whose sources differ in case:
  the code orders them by the lowercased source, not by the source.
\<close>

theorem sorted_docs_of_prioritizes_counterexample:
  "\<not> spec_prioritized (sorted_docs_of [doc_sso, doc_api])"
  unfolding sorted_two_docs
  by (simp add: spec_prioritized_def spec_authoritative_def spec_source_def doc_sso_def
        doc_api_def metadata_get_def)

section \<open>Outcomes of a query\<close>

text \<open>
  C3.  Whenever the vector store is available and retrieval returns no chunk,
  \<open>get_rag_answer\<close> returns a normal result with the fixed insufficient-information
  answer and no sources; it is no error value, and no prompt is sent to the model.
\<close>

theorem get_rag_answer_no_evidence:
  assumes "vector_store self = Some store"
    and "store 8 question = Return []"
  shows "get_rag_answer tmpl self question
           = (Return (RagAnswer no_evidence_answer [] None), [])"
  using assms by (simp add: get_rag_answer_def)

theorem get_rag_answer_no_evidence_witness:
  "vector_store \<lparr>vector_store = Some (store_of []), llm = model_ok\<rparr> = Some (store_of [])
   \<and> store_of [] 8 ''How do I enable SSO?'' = Return []
   \<and> get_rag_answer example_template \<lparr>vector_store = Some (store_of []), llm = model_ok\<rparr>
        ''How do I enable SSO?''
       = (Return (RagAnswer no_evidence_answer [] None), [])"
proof -
  have h1: "vector_store \<lparr>vector_store = Some (store_of []), llm = model_ok\<rparr>
              = Some (store_of [])"
    by simp
  have h2: "store_of [] 8 ''How do I enable SSO?'' = Return []"
    by (simp add: store_of_def)
  from get_rag_answer_no_evidence [OF h1 h2, of example_template] h1 h2
  show ?thesis by blast
qed

text \<open>
  C4 (as amended).  \<open>get_rag_answer\<close> raises only when the retrieval itself raises, and
  then it raises that exception; every failure of the generation step (the model call
  raises, or reading the text of its response raises) is converted into a returned
  result carrying an error that begins \<open>Failed to generate an answer\<close> and ends with the
  detail of the exception.
\<close>

theorem get_rag_answer_failures:
  "(\<forall>e. fst (get_rag_answer tmpl self question) = Raise e \<longrightarrow>
        (\<exists>store. vector_store self = Some store \<and> store 8 question = Raise e))
   \<and> (\<forall>store relevant_docs e.
        vector_store self = Some store \<and> store 8 question = Return relevant_docs
        \<and> relevant_docs \<noteq> []
        \<and> generation_fails (llm self) (prompt_of tmpl relevant_docs question) e \<longrightarrow>
        get_rag_answer tmpl self question
          = (Return (RagError (''Failed to generate an answer from the LLM: '' @ exn_msg e)),
             [prompt_of tmpl relevant_docs question]))"
proof (intro conjI allI impI)
  fix e
  assume r: "fst (get_rag_answer tmpl self question) = Raise e"
  show "\<exists>store. vector_store self = Some store \<and> store 8 question = Raise e"
  proof (cases "vector_store self")
    case None
    with r show ?thesis by (simp add: get_rag_answer_def)
  next
    case (Some store)
    with r have "store 8 question = Raise e"
      by (auto simp add: get_rag_answer_def Let_def split: outcome.splits if_splits)
    with Some show ?thesis by simp
  qed
next
  fix store relevant_docs e
  assume h: "vector_store self = Some store \<and> store 8 question = Return relevant_docs
        \<and> relevant_docs \<noteq> []
        \<and> generation_fails (llm self) (prompt_of tmpl relevant_docs question) e"
  then show "get_rag_answer tmpl self question
          = (Return (RagError (''Failed to generate an answer from the LLM: '' @ exn_msg e)),
             [prompt_of tmpl relevant_docs question])"
    by (auto simp add: get_rag_answer_def generation_fails_def prompt_of_def
          generation_error_def Let_def split: outcome.splits)
qed

theorem get_rag_answer_failures_witness:
  "get_rag_answer example_template \<lparr>vector_store = Some (store_of [doc_sso]), llm = model_down\<rparr>
     ''How do I enable SSO?''
     = (Return (RagError ''Failed to generate an answer from the LLM: quota exceeded''),
        [''Context: Go to Settings. Question: How do I enable SSO? Final Answer:''])"
proof -
  let ?self = "\<lparr>vector_store = Some (store_of [doc_sso]), llm = model_down\<rparr>"
  let ?q = "''How do I enable SSO?''"
  have p: "prompt_of example_template [doc_sso] ?q
      = ''Context: Go to Settings. Question: How do I enable SSO? Final Answer:''"
    by (simp add: prompt_of_def format_rag_prompt_def example_template_def sorted_docs_of_def
          doc_sso_def)
  have h: "vector_store ?self = Some (store_of [doc_sso])
      \<and> store_of [doc_sso] 8 ?q = Return [doc_sso] \<and> [doc_sso] \<noteq> []
      \<and> generation_fails (llm ?self) (prompt_of example_template [doc_sso] ?q)
          (Exn ''ResourceExhausted'' ''quota exceeded'')"
    by (simp add: store_of_def generation_fails_def model_down_def)
  have "get_rag_answer example_template ?self ?q
      = (Return (RagError (''Failed to generate an answer from the LLM: ''
                           @ exn_msg (Exn ''ResourceExhausted'' ''quota exceeded''))),
         [prompt_of example_template [doc_sso] ?q])"
    using get_rag_answer_failures [of example_template ?self ?q] h by blast
  then show ?thesis by (simp add: p)
qed

text \<open>
  The claim as stated fails when the retrieval raises: the exception leaves
  \<open>get_rag_answer\<close>, and no result with an error is returned.
\<close>

theorem get_rag_answer_failures_counterexample:
  "get_rag_answer example_template \<lparr>vector_store = Some store_down, llm = model_ok\<rparr>
     ''How do I enable SSO?''
     = (Raise (Exn ''ConnectionError'' ''index unreachable''), [])"
  by (simp add: get_rag_answer_def store_down_def)

section \<open>The vector store of a pipeline\<close>

text \<open>
  C5 (as amended).  A constructed pipeline holds no vector store exactly when the
  constructor of Chroma raised while loading the persisted index, and then every query to
  \<open>get_rag_answer\<close> returns the error result \<open>Vector store is not available.\<close> and sends
  nothing to the model.  An empty or missing knowledge base alone only skips the build.
\<close>

theorem get_rag_answer_store_unavailable:
  assumes "init_pipeline env model fs = (Return self, fs', done)"
  shows "(vector_store self = None \<longleftrightarrow>
            (\<exists>e. snd (chroma env (vector_store_path
                     (fst (snd (ensure_local_vector_store env fs))))) = Raise e))
       \<and> (vector_store self = None \<longrightarrow>
            get_rag_answer tmpl self question
              = (Return (RagError ''Vector store is not available.''), []))"
proof
  obtain r fs1 tr where e: "ensure_local_vector_store env fs = (r, fs1, tr)"
    by (cases "ensure_local_vector_store env fs") auto
  obtain dir opened where c: "chroma env (vector_store_path fs1) = (dir, opened)"
    by (cases "chroma env (vector_store_path fs1)") auto
  from assms e c show "vector_store self = None \<longleftrightarrow>
      (\<exists>e. snd (chroma env (vector_store_path
               (fst (snd (ensure_local_vector_store env fs))))) = Raise e)"
    by (cases r; cases "embeddings env"; cases opened)
       (auto simp add: init_pipeline_def load_vector_store_def)
next
  show "vector_store self = None \<longrightarrow>
      get_rag_answer tmpl self question
        = (Return (RagError ''Vector store is not available.''), [])"
    by (simp add: get_rag_answer_def)
qed

theorem get_rag_answer_store_unavailable_witness:
  "init_pipeline broken_env model_ok \<lparr>vector_store_path = Absent, knowledge_base_path = None\<rparr>
     = (Return \<lparr>vector_store = None, llm = model_ok\<rparr>,
        \<lparr>vector_store_path = Absent, knowledge_base_path = None\<rparr>, [Embeddings, OpenStore])
   \<and> get_rag_answer example_template \<lparr>vector_store = None, llm = model_ok\<rparr>
        ''How do I enable SSO?''
       = (Return (RagError ''Vector store is not available.''), [])"
proof -
  have h: "init_pipeline broken_env model_ok
             \<lparr>vector_store_path = Absent, knowledge_base_path = None\<rparr>
     = (Return \<lparr>vector_store = None, llm = model_ok\<rparr>,
        \<lparr>vector_store_path = Absent, knowledge_base_path = None\<rparr>, [Embeddings, OpenStore])"
    by (simp add: init_pipeline_def load_vector_store_def ensure_local_vector_store_def
          broken_env_def example_env_def)
  from get_rag_answer_store_unavailable [OF h, of example_template "''How do I enable SSO?''"] h
  show ?thesis by simp
qed

text \<open>
  The claim as stated fails when the knowledge base is missing and Chroma opens the
  absent path, creating an empty store: the pipeline holds a store, and a query returns
  the insufficient-information answer, not the error.
\<close>

theorem get_rag_answer_store_unavailable_counterexample:
  "init_pipeline example_env model_ok \<lparr>vector_store_path = Absent, knowledge_base_path = None\<rparr>
     = (Return \<lparr>vector_store = Some (store_of []), llm = model_ok\<rparr>,
        \<lparr>vector_store_path = Directory [''chroma.sqlite3''], knowledge_base_path = None\<rparr>,
        [Embeddings, OpenStore])
   \<and> get_rag_answer example_template \<lparr>vector_store = Some (store_of []), llm = model_ok\<rparr>
        ''How do I enable SSO?''
       = (Return (RagAnswer no_evidence_answer [] None), [])"
  by (simp add: init_pipeline_def load_vector_store_def ensure_local_vector_store_def
        example_env_def get_rag_answer_def store_of_def)

section \<open>The index build\<close>

text \<open>
  C6.  The build is idempotent: when the index path is a non-empty directory, the build
  makes no call and leaves the file system as it is, also when it is invoked a second
  time; and when the knowledge base file is absent, the build returns without error,
  makes no call and creates nothing.
\<close>

theorem ensure_local_vector_store_idempotent:
  "(is_populated (vector_store_path fs) \<longrightarrow>
      ensure_local_vector_store env fs = (Return (), fs, [])
      \<and> ensure_local_vector_store env (fst (snd (ensure_local_vector_store env fs)))
          = (Return (), fs, []))
   \<and> (knowledge_base_path fs = None \<longrightarrow>
        ensure_local_vector_store env fs = (Return (), fs, []))"
  by (simp add: ensure_local_vector_store_def)

theorem ensure_local_vector_store_idempotent_witness:
  "is_populated (vector_store_path
       \<lparr>vector_store_path = Directory [''chroma.sqlite3''],
        knowledge_base_path = Some (Return [sso_item])\<rparr>)
   \<and> ensure_local_vector_store example_env
        \<lparr>vector_store_path = Directory [''chroma.sqlite3''],
         knowledge_base_path = Some (Return [sso_item])\<rparr>
       = (Return (),
          \<lparr>vector_store_path = Directory [''chroma.sqlite3''],
           knowledge_base_path = Some (Return [sso_item])\<rparr>, [])
   \<and> knowledge_base_path \<lparr>vector_store_path = Absent, knowledge_base_path = None\<rparr> = None
   \<and> ensure_local_vector_store example_env
        \<lparr>vector_store_path = Absent, knowledge_base_path = None\<rparr>
       = (Return (), \<lparr>vector_store_path = Absent, knowledge_base_path = None\<rparr>, [])"
  using ensure_local_vector_store_idempotent
          [of "\<lparr>vector_store_path = Directory [''chroma.sqlite3''],
                knowledge_base_path = Some (Return [sso_item])\<rparr>" example_env]
        ensure_local_vector_store_idempotent
          [of "\<lparr>vector_store_path = Absent, knowledge_base_path = None\<rparr>" example_env]
  by simp

text \<open>
  C7.  During a build, if the loaded knowledge base is empty, or no record has content,
  or the splitter gives no chunk, the build returns without error and leaves the file
  system as it is: it neither creates the directory nor writes an index (the only call it
  may have made is the splitter's).
\<close>

theorem ensure_local_vector_store_aborts:
  assumes "knowledge_base_path fs = Some loaded"
    and "kb_data_of loaded = []
         \<or> documents_of_kb (kb_data_of loaded) = []
         \<or> split_documents env (documents_of_kb (kb_data_of loaded)) = []"
  shows "fst (ensure_local_vector_store env fs) = Return ()
       \<and> fst (snd (ensure_local_vector_store env fs)) = fs
       \<and> MakeDirs \<notin> set (snd (snd (ensure_local_vector_store env fs)))
       \<and> FromDocuments chunks \<notin> set (snd (snd (ensure_local_vector_store env fs)))"
  using assms
  by (auto simp add: ensure_local_vector_store_def kb_data_of_def Let_def)

theorem ensure_local_vector_store_aborts_witness:
  "fst (ensure_local_vector_store example_env
          \<lparr>vector_store_path = Absent, knowledge_base_path = Some (Return [empty_item])\<rparr>)
     = Return ()
   \<and> fst (snd (ensure_local_vector_store example_env
          \<lparr>vector_store_path = Absent, knowledge_base_path = Some (Return [empty_item])\<rparr>))
     = \<lparr>vector_store_path = Absent, knowledge_base_path = Some (Return [empty_item])\<rparr>"
proof -
  let ?fs = "\<lparr>vector_store_path = Absent, knowledge_base_path = Some (Return [empty_item])\<rparr>"
  have h1: "knowledge_base_path ?fs = Some (Return [empty_item])" by simp
  have h2: "kb_data_of (Return [empty_item]) = []
         \<or> documents_of_kb (kb_data_of (Return [empty_item])) = []
         \<or> split_documents example_env (documents_of_kb (kb_data_of (Return [empty_item]))) = []"
    by (simp add: kb_data_of_def documents_of_kb_def empty_item_def item_get_def)
  from ensure_local_vector_store_aborts [OF h1 h2] show ?thesis by blast
qed

section \<open>Documents handed to the splitter\<close>

lemma documents_of_kb_append:
  "documents_of_kb (xs @ ys) = documents_of_kb xs @ documents_of_kb ys"
  by (simp add: documents_of_kb_def)

lemma create_documents_from_data_skip:
  assumes "\<not> truthy (item_get content item PyNone)"
  shows "create_documents_from_data (xs @ item # ys) = create_documents_from_data (xs @ ys)"
  using assms by (induction xs) (simp_all split: option.splits)

text \<open>
  C9 (as amended).  A knowledge-base record whose content is empty (the empty string,
  \<open>null\<close> or absent) is excluded before chunking, in the pipeline's build and in the
  offline builder alike: the documents handed to the splitter are the same as without the
  record, and every document handed over has a non-empty text.  A record whose content
  is whitespace only is not excluded there.
\<close>

theorem empty_content_excluded:
  assumes "\<not> truthy (item_get content item PyNone)"
  shows "documents_of_kb (xs @ item # ys) = documents_of_kb (xs @ ys)
       \<and> create_documents_from_data (xs @ item # ys) = create_documents_from_data (xs @ ys)
       \<and> [] \<notin> set (map page_content (documents_of_kb (xs @ item # ys)))"
proof -
  have "documents_of_kb [item] = []"
    using assms by (simp add: documents_of_kb_def)
  then have a: "documents_of_kb (xs @ item # ys) = documents_of_kb (xs @ ys)"
    using documents_of_kb_append [of xs "[item] @ ys"] documents_of_kb_append [of "[item]" ys]
      documents_of_kb_append [of xs ys]
    by simp
  have b: "create_documents_from_data (xs @ item # ys) = create_documents_from_data (xs @ ys)"
    using assms by (rule create_documents_from_data_skip)
  have c: "[] \<notin> set (map page_content (documents_of_kb kb))" for kb
  proof (induction kb)
    case Nil
    show ?case by (simp add: documents_of_kb_def)
  next
    case (Cons i kb)
    have "documents_of_kb (i # kb) = documents_of_kb [i] @ documents_of_kb kb"
      using documents_of_kb_append [of "[i]" kb] by simp
    moreover have "[] \<notin> set (map page_content (documents_of_kb [i]))"
      by (cases "content i"; cases "item_get content i PyNone")
         (auto simp add: documents_of_kb_def item_get_def)
    ultimately show ?case using Cons by simp
  qed
  from a b c show ?thesis by blast
qed

theorem empty_content_excluded_witness:
  "\<not> truthy (item_get content empty_item PyNone)
   \<and> documents_of_kb ([sso_item] @ empty_item # []) = documents_of_kb ([sso_item] @ [])
   \<and> create_documents_from_data ([sso_item] @ empty_item # [])
       = create_documents_from_data ([sso_item] @ [])
   \<and> documents_of_kb [sso_item]
       = [\<lparr>page_content = ''To enable SSO, go to Settings.'',
           metadata_source = Some (PyStr ''https://docs.atlan.com/sso'')\<rparr>]"
proof -
  have h: "\<not> truthy (item_get content empty_item PyNone)"
    by (simp add: empty_item_def item_get_def)
  have d: "documents_of_kb [sso_item]
       = [\<lparr>page_content = ''To enable SSO, go to Settings.'',
           metadata_source = Some (PyStr ''https://docs.atlan.com/sso'')\<rparr>]"
    by (simp add: documents_of_kb_def sso_item_def item_get_def)
  from empty_content_excluded [OF h, of "[sso_item]" "[]"] h d show ?thesis by blast
qed

text \<open>
  The claim as stated fails on a record whose content is three spaces: it is whitespace
  only, and both builders hand a document made of it to the splitter.
\<close>

theorem empty_content_excluded_counterexample:
  "list_all isspace ''   ''
   \<and> documents_of_kb [blank_item]
       = [\<lparr>page_content = ''   '',
           metadata_source = Some (PyStr ''https://docs.atlan.com/blank'')\<rparr>]
   \<and> create_documents_from_data [blank_item]
       = Return [\<lparr>page_content = ''   '',
                  metadata_source = Some (PyStr ''https://docs.atlan.com/blank'')\<rparr>]"
  by (simp add: documents_of_kb_def blank_item_def item_get_def isspace_def)

section \<open>Answer post-processing\<close>

text \<open>
  C8 (the code departs from the claim).  On an answer that holds a line \<open>Source:\<close>
  followed by a line \<open>Sources:\<close>, the code cuts at the marker that stands first in its
  list (\<open>Sources:\<close>) and keeps the earlier \<open>Source:\<close> section, whereas cutting at the first
  occurrence of any marker leaves only the text before \<open>Source:\<close>.
\<close>

theorem strip_sources_from_answer_keeps_earlier_marker:
  "strip_sources_from_answer
     ''Enable SSO in Settings.\<newline>Source: https://docs.atlan.com/sso\<newline>Sources: https://docs.atlan.com''
     = ''Enable SSO in Settings.\<newline>Source: https://docs.atlan.com/sso''
   \<and> spec_strip_sources
     ''Enable SSO in Settings.\<newline>Source: https://docs.atlan.com/sso\<newline>Sources: https://docs.atlan.com''
     = ''Enable SSO in Settings.''"
  by code_simp

section \<open>Ticket classification\<close>

text \<open>
  C10.  For the empty input string, \<open>classify_ticket\<close> returns the error result
  \<open>Input ticket text cannot be empty.\<close> at once: no prompt is sent to the model.
\<close>

theorem classify_ticket_empty:
  "classify_ticket env [] = (Return (ClassifyError ''Input ticket text cannot be empty.'' None), [])"
  by (simp add: classify_ticket_def)

end
